theory Spec2Isabelle
  imports Complex_Main
begin

section \<open>Data model\<close>

text \<open>
  The persistent store is a set of collections, each a map from document id to document.
  Identifiers are ObjectIds compared through their string form (\<open>_id.toString()\<close>), so an
  id is a string; every id handed to a handler is taken to be a well-formed ObjectId.
  A JavaScript Number is idealised as a real, a Date as its epoch milliseconds, and every
  \<open>new Date()\<close> of one request reads the same clock value \<open>now\<close>.
\<close>

type_synonym oid = string
type_synonym time = int

datatype task_status = Pending | Assigned | InProgress | Completed | Review | Rejected

datatype role = Admin | Worker | Client

text \<open>What a handler's \<open>catch\<close> block receives: \<open>new Error(msg)\<close>, a TypeError of the runtime
  (reading a property of \<open>null\<close>), or the ValidationError with which \<open>save()\<close> rejects.\<close>

datatype js_error = Error string | TypeError | ValidationError

text \<open>The failure response: HTTP status, \<open>message\<close>, and the \<open>error\<close> field when the handler sets one.\<close>

datatype failure = Failure nat string "js_error option"

subsection \<open>Inventory (models/Inventory.js)\<close>

record inventory_item =
  inv_id :: oid
  inv_name :: string
  quantity_current :: real
  quantity_minimum :: real

subsection \<open>Site and sections (models/Site.js)\<close>

text \<open>
  An element of \<open>referenceImages\<close> of a section embedded in a site (Site.js): the paths the
  embedded schema declares. It declares no media kind, format or duration; those are paths
  of the standalone Section model only, which no handler here reads.
\<close>

record reference_image =
  ri_id :: oid
  ri_url :: "string option"
  ri_cloudinaryId :: "string option"
  ri_caption :: "string option"
  ri_uploadedAt :: time
  ri_qtn :: real
  ri_description :: "string option"

record site_section =
  sec_id :: oid
  sec_name :: string
  sec_referenceImages :: "reference_image list"
  sec_lastTaskStatus :: "task_status option"
  sec_lastTaskDate :: "time option"
  sec_lastTaskId :: "oid option"

record site =
  site_id :: oid
  site_client :: oid
  site_sections :: "site_section list"
  site_totalTasks :: int
  site_completedTasks :: int
  site_lastVisit :: "time option"

subsection \<open>Client and worker counters\<close>

record client =
  cl_totalTasks :: int
  cl_completedTasks :: int

record user =
  u_role :: role
  u_workerCompletedTasks :: int

subsection \<open>Task (models/Task.js)\<close>

record gps_fix =
  gps_latitude :: real
  gps_longitude :: real
  gps_timestamp :: time

record attachment =
  att_id :: oid
  att_url :: string
  att_cloudinaryId :: string
  att_thumbnail :: string
  att_mediaType :: string
  att_format :: "string option"
  att_duration :: "real option"
  att_uploadedAt :: time
  att_uploadedBy :: oid
  isVisibleToClient :: bool

record material =
  m_item :: "oid option"
  m_name :: string
  m_quantity :: real

record feedback =
  fb_rating :: int
  fb_comment :: string
  fb_imageNumber :: "int option"
  fb_image :: "string option"
  fb_cloudinaryId :: "string option"
  fb_submittedAt :: time
  isSatisfiedOnly :: bool

text \<open>
  The task record holds the paths of the schema that the handlers below read or write after
  creation. \<open>t_site\<close> is optional because the handlers test \<open>if (task.site)\<close>. The schema
  declares no path \<open>referenceImages\<close>.
\<close>

record task =
  task_id :: oid
  t_site :: "oid option"
  t_sections :: "oid list"
  t_client :: oid
  t_worker :: "oid option"
  t_status :: task_status
  actualDuration :: real
  startLocation :: "gps_fix option"
  endLocation :: "gps_fix option"
  images_before :: "attachment list"
  images_after :: "attachment list"
  t_materials :: "material list"
  cost_labor :: real
  cost_materials :: real
  cost_total :: real
  startedAt :: "time option"
  completedAt :: "time option"
  t_feedback :: "feedback option"

subsection \<open>The store and the caller\<close>

record database =
  tasks :: "oid \<rightharpoonup> task"
  sites :: "oid \<rightharpoonup> site"
  clients :: "oid \<rightharpoonup> client"
  users :: "oid \<rightharpoonup> user"
  inventory :: "oid \<rightharpoonup> inventory_item"

text \<open>\<open>req.user\<close>, set by the \<open>protect\<close> middleware.\<close>

record caller =
  c_id :: oid
  c_role :: role

section \<open>Inventory ledger\<close>

text \<open>
  \<open>inventorySchema.methods.deduct\<close>: throws \<open>Error('Insufficient stock')\<close> when the stock is
  below the amount, otherwise subtracts and saves the document. The result is the thrown
  error or the saved document, together with the store after the call.
\<close>

definition deduct :: "database \<Rightarrow> inventory_item \<Rightarrow> real \<Rightarrow> (js_error + inventory_item) \<times> database" where
  "deduct db this amount =
     (if quantity_current this < amount then (Inl (Error ''Insufficient stock''), db)
      else
        let this' = this\<lparr>quantity_current := quantity_current this - amount\<rparr>
        in (Inr this', db\<lparr>inventory := (inventory db)(inv_id this' \<mapsto> this')\<rparr>))"

section \<open>Site/section registry (models/Site.js)\<close>

text \<open>\<open>this.sections.id(sectionId)\<close>: the first embedded section with that id, if any.\<close>

definition sectionsId :: "site_section list \<Rightarrow> oid \<Rightarrow> site_section option" where
  "sectionsId secs sectionId = find (\<lambda>sec. sec_id sec = sectionId) secs"

text \<open>Assigning to the fields of the sub-document that \<open>sections.id\<close> returned.\<close>

fun assignSection :: "oid \<Rightarrow> (site_section \<Rightarrow> site_section) \<Rightarrow> site_section list \<Rightarrow> site_section list" where
  "assignSection sectionId f [] = []"
| "assignSection sectionId f (sec # secs) =
     (if sec_id sec = sectionId then f sec # secs else sec # assignSection sectionId f secs)"

text \<open>
  \<open>siteSchema.methods.updateSectionLastTask\<close>: returns silently when the section is not in
  the site; otherwise sets the three last-task fields and saves the site. The result is the
  site document after the call and the store after the call.
\<close>

definition updateSectionLastTask ::
  "database \<Rightarrow> site \<Rightarrow> oid \<Rightarrow> task_status \<Rightarrow> oid \<Rightarrow> time \<Rightarrow> site \<times> database" where
  "updateSectionLastTask db this sectionId taskStatus taskId now =
     (case sectionsId (site_sections this) sectionId of
        None \<Rightarrow> (this, db)
      | Some _ \<Rightarrow>
          let this' = this\<lparr>site_sections :=
                 assignSection sectionId
                   (\<lambda>sec. sec\<lparr>sec_lastTaskStatus := Some taskStatus,
                              sec_lastTaskDate := Some now,
                              sec_lastTaskId := Some taskId\<rparr>)
                   (site_sections this)\<rparr>
          in (this', db\<lparr>sites := (sites db)(site_id this' \<mapsto> this')\<rparr>))"

section \<open>Task record hooks (models/Task.js)\<close>

text \<open>\<open>Math.round\<close>: the nearest integer, a half rounding up.\<close>

definition js_round :: "real \<Rightarrow> real" where
  "js_round x = of_int \<lfloor>x + 1 / 2\<rfloor>"

text \<open>\<open>taskSchema.pre("save")\<close>.\<close>

definition preSave :: "task \<Rightarrow> task" where
  "preSave this =
     (let this1 =
        (case startedAt this of
           None \<Rightarrow> this
         | Some s \<Rightarrow>
             (case completedAt this of
                None \<Rightarrow> this
              | Some c \<Rightarrow>
                  let duration = of_int (c - s) / (1000 * 60 * 60)
                  in this\<lparr>actualDuration := js_round (duration * 100) / 100\<rparr>))
      in this1\<lparr>cost_total := cost_labor this1 + cost_materials this1\<rparr>)"

text \<open>
  \<open>task.save()\<close>: the pre-save hook runs, then the document is written under its id. The
  result is the document as saved and the store after the write.
\<close>

definition saveTask :: "database \<Rightarrow> task \<Rightarrow> task \<times> database" where
  "saveTask db t = (let t' = preSave t in (t', db\<lparr>tasks := (tasks db)(task_id t' \<mapsto> t')\<rparr>))"

section \<open>Task lifecycle engine (controllers/taskController.js)\<close>

subsection \<open>updateTask\<close>

text \<open>
  The fields of the request body of \<open>PUT /tasks/:id\<close> that the handler reads or writes;
  \<open>None\<close> is an absent field. \<open>b_worker\<close>, when present, is a non-empty id.
\<close>

record update_body =
  b_worker :: "oid option"
  b_status :: "task_status option"
  b_completedAt :: "time option"

text \<open>
  The loop over \<open>task.materials\<close>: a material without item, or whose item is not in the
  inventory, is skipped; a \<open>deduct\<close> that throws ends the loop, and what the earlier
  iterations saved stays saved. The result is the thrown error, if any, and the store.
\<close>

fun deductMaterials :: "database \<Rightarrow> material list \<Rightarrow> js_error option \<times> database" where
  "deductMaterials db [] = (None, db)"
| "deductMaterials db (material # rest) =
     (case m_item material of
        None \<Rightarrow> deductMaterials db rest
      | Some item \<Rightarrow>
          (case inventory db item of
             None \<Rightarrow> deductMaterials db rest
           | Some inventoryItem \<Rightarrow>
               (case deduct db inventoryItem (m_quantity material) of
                  (Inl e, db') \<Rightarrow> (Some e, db')
                | (Inr _, db') \<Rightarrow> deductMaterials db' rest)))"

text \<open>\<open>Model.findByIdAndUpdate(id, {$inc: ...})\<close>: no document with that id, no change.\<close>

definition incClientCompleted :: "database \<Rightarrow> oid \<Rightarrow> database" where
  "incClientCompleted db cid =
     (case clients db cid of
        None \<Rightarrow> db
      | Some c \<Rightarrow> db\<lparr>clients := (clients db)(cid \<mapsto> c\<lparr>cl_completedTasks := cl_completedTasks c + 1\<rparr>)\<rparr>)"

definition incWorkerCompleted :: "database \<Rightarrow> oid \<Rightarrow> database" where
  "incWorkerCompleted db uid =
     (case users db uid of
        None \<Rightarrow> db
      | Some u \<Rightarrow> db\<lparr>users := (users db)(uid \<mapsto> u\<lparr>u_workerCompletedTasks := u_workerCompletedTasks u + 1\<rparr>)\<rparr>)"

definition incSiteCompleted :: "database \<Rightarrow> oid \<Rightarrow> time \<Rightarrow> database" where
  "incSiteCompleted db sid now =
     (case sites db sid of
        None \<Rightarrow> db
      | Some s \<Rightarrow> db\<lparr>sites := (sites db)(sid \<mapsto> s\<lparr>site_completedTasks := site_completedTasks s + 1,
                                                  site_lastVisit := Some now\<rparr>)\<rparr>)"

text \<open>\<open>for (const sectionId of task.sections) await site.updateSectionLastTask(...)\<close>.\<close>

fun updateSections ::
  "database \<Rightarrow> site \<Rightarrow> oid list \<Rightarrow> task_status \<Rightarrow> oid \<Rightarrow> time \<Rightarrow> site \<times> database" where
  "updateSections db site [] taskStatus taskId now = (site, db)"
| "updateSections db site (sectionId # rest) taskStatus taskId now =
     (case updateSectionLastTask db site sectionId taskStatus taskId now of
        (site', db') \<Rightarrow> updateSections db' site' rest taskStatus taskId now)"

text \<open>\<open>const site = await Site.findById(task.site); if (site && task.sections) ...\<close>.\<close>

definition propagateLastTask :: "database \<Rightarrow> oid \<Rightarrow> task \<Rightarrow> task_status \<Rightarrow> time \<Rightarrow> database" where
  "propagateLastTask db sid task taskStatus now =
     (case sites db sid of
        None \<Rightarrow> db
      | Some site \<Rightarrow> snd (updateSections db site (t_sections task) taskStatus (task_id task) now))"

text \<open>The body of \<open>if (req.body.status === "completed" && task.status !== "completed")\<close>.\<close>

definition completedCascade :: "database \<Rightarrow> task \<Rightarrow> time \<Rightarrow> database" where
  "completedCascade db task now =
     (let db1 = incClientCompleted db (t_client task);
          db2 = (case t_worker task of None \<Rightarrow> db1 | Some w \<Rightarrow> incWorkerCompleted db1 w)
      in case t_site task of
           None \<Rightarrow> db2
         | Some sid \<Rightarrow> propagateLastTask (incSiteCompleted db2 sid now) sid task Completed now)"

text \<open>The body of \<open>if (req.body.status === "rejected" && task.status !== "rejected")\<close>.\<close>

definition rejectedCascade :: "database \<Rightarrow> task \<Rightarrow> time \<Rightarrow> database" where
  "rejectedCascade db task now =
     (case t_site task of
        None \<Rightarrow> db
      | Some sid \<Rightarrow> propagateLastTask db sid task Rejected now)"

text \<open>
  \<open>Task.findByIdAndUpdate(id, req.body, {new: true, runValidators: true})\<close>: the fields present
  in the body are written to the stored document and the updated document is returned,
  \<open>null\<close> (\<open>None\<close>) when there is none. It is an update query, not \<open>save()\<close>: the pre-save
  hook does not run.
\<close>

definition applyBody :: "task \<Rightarrow> update_body \<Rightarrow> task" where
  "applyBody t body =
     (let t1 = (case b_worker body of None \<Rightarrow> t | Some w \<Rightarrow> t\<lparr>t_worker := Some w\<rparr>);
          t2 = (case b_status body of None \<Rightarrow> t1 | Some st \<Rightarrow> t1\<lparr>t_status := st\<rparr>)
      in case b_completedAt body of None \<Rightarrow> t2 | Some c \<Rightarrow> t2\<lparr>completedAt := Some c\<rparr>)"

definition findByIdAndUpdateTask :: "database \<Rightarrow> oid \<Rightarrow> update_body \<Rightarrow> task option \<times> database" where
  "findByIdAndUpdateTask db tid body =
     (case tasks db tid of
        None \<Rightarrow> (None, db)
      | Some stored \<Rightarrow>
          let t' = applyBody stored body
          in (Some t', db\<lparr>tasks := (tasks db)(tid \<mapsto> t')\<rparr>))"

text \<open>The first-assignment step: \<open>if (req.body.worker && !task.worker)\<close>.\<close>

definition assignmentStep :: "database \<Rightarrow> task \<Rightarrow> update_body \<Rightarrow> js_error option \<times> database \<times> update_body" where
  "assignmentStep db task body =
     (if b_worker body \<noteq> None \<and> t_worker task = None then
        (case (if t_materials task \<noteq> [] then deductMaterials db (t_materials task) else (None, db)) of
           (Some e, db') \<Rightarrow> (Some e, db', body)
         | (None, db') \<Rightarrow> (None, db', body\<lparr>b_status := Some Assigned\<rparr>))
      else (None, db, body))"

text \<open>The success payload is the \<open>data\<close> of the response, the updated task.\<close>

definition updateTask ::
  "database \<Rightarrow> caller \<Rightarrow> oid \<Rightarrow> update_body \<Rightarrow> time \<Rightarrow> (failure + task option) \<times> database" where
  "updateTask db req_user tid body now =
     (case tasks db tid of
        None \<Rightarrow> (Inl (Failure 404 ''Task not found'' None), db)
      | Some task \<Rightarrow>
          if c_role req_user = Worker \<and> t_worker task \<noteq> Some (c_id req_user)
          then (Inl (Failure 403 ''Not authorized to update this task'' None), db)
          else
            (case assignmentStep db task body of
               (Some e, db1, _) \<Rightarrow> (Inl (Failure 500 ''Server error'' (Some e)), db1)
             | (None, db1, body1) \<Rightarrow>
                 let (db2, body2) =
                       (if b_status body1 = Some Completed \<and> t_status task \<noteq> Completed
                        then (completedCascade db1 task now, body1\<lparr>b_completedAt := Some now\<rparr>)
                        else (db1, body1));
                     db3 = (if b_status body2 = Some Rejected \<and> t_status task \<noteq> Rejected
                            then rejectedCascade db2 task now else db2)
                 in case findByIdAndUpdateTask db3 tid body2 of
                      (data, db4) \<Rightarrow> (Inr data, db4)))"

subsection \<open>startTask and completeTask\<close>

text \<open>
  \<open>latitude\<close> and \<open>longitude\<close> of the request body, \<open>None\<close> for \<open>undefined\<close>, otherwise the
  number that \<open>parseFloat\<close> reads.
\<close>

record gps_body =
  latitude :: "real option"
  longitude :: "real option"

definition gpsFix :: "gps_body \<Rightarrow> time \<Rightarrow> gps_fix option" where
  "gpsFix body now =
     (case latitude body of
        None \<Rightarrow> None
      | Some la \<Rightarrow>
          (case longitude body of
             None \<Rightarrow> None
           | Some lo \<Rightarrow> Some \<lparr>gps_latitude = la, gps_longitude = lo, gps_timestamp = now\<rparr>))"

text \<open>
  \<open>task.worker.toString()\<close> on a task without worker is a TypeError, caught by the handler
  and answered with status 500.
\<close>

definition startTask ::
  "database \<Rightarrow> caller \<Rightarrow> oid \<Rightarrow> gps_body \<Rightarrow> time \<Rightarrow> (failure + task) \<times> database" where
  "startTask db req_user tid body now =
     (case tasks db tid of
        None \<Rightarrow> (Inl (Failure 404 ''Task not found'' None), db)
      | Some task \<Rightarrow>
          (case t_worker task of
             None \<Rightarrow> (Inl (Failure 500 ''Server error'' (Some TypeError)), db)
           | Some w \<Rightarrow>
               if w \<noteq> c_id req_user then (Inl (Failure 403 ''Not authorized'' None), db)
               else
                 let task1 = task\<lparr>t_status := InProgress, startedAt := Some now\<rparr>;
                     task2 = (case gpsFix body now of
                                None \<Rightarrow> task1
                              | Some fix \<Rightarrow> task1\<lparr>startLocation := Some fix\<rparr>)
                 in case saveTask db task2 of (saved, db') \<Rightarrow> (Inr saved, db')))"

definition completeTask ::
  "database \<Rightarrow> caller \<Rightarrow> oid \<Rightarrow> gps_body \<Rightarrow> time \<Rightarrow> (failure + task) \<times> database" where
  "completeTask db req_user tid body now =
     (case tasks db tid of
        None \<Rightarrow> (Inl (Failure 404 ''Task not found'' None), db)
      | Some task \<Rightarrow>
          (case t_worker task of
             None \<Rightarrow> (Inl (Failure 500 ''Server error'' (Some TypeError)), db)
           | Some w \<Rightarrow>
               if w \<noteq> c_id req_user then (Inl (Failure 403 ''Not authorized'' None), db)
               else if t_status task = Completed
               then (Inl (Failure 400 ''Task already completed'' None), db)
               else
                 let task1 = task\<lparr>t_status := Completed, completedAt := Some now\<rparr>;
                     task2 = (case gpsFix body now of
                                None \<Rightarrow> task1
                              | Some fix \<Rightarrow> task1\<lparr>endLocation := Some fix\<rparr>)
                 in case saveTask db task2 of (saved, db') \<Rightarrow> (Inr saved, db')))"

section \<open>Media attachment manager (controllers/taskController.js)\<close>

subsection \<open>uploadTaskImages\<close>

text \<open>
  The handler in the revision that records media kind, format and duration; the earlier
  revision has the same checks and the same visibility expression. A task document always
  has its two image arrays, so \<open>if (!task.images)\<close> is never taken.
\<close>

text \<open>A value of the request body that may be a boolean, a string or \<open>null\<close>.\<close>

datatype js_value = JBool bool | JString string | JNull

record upload_body =
  ub_imageType :: "string option"
  ub_isVisibleToClient :: "js_value option"

text \<open>An element of \<open>req.files\<close>, as the upload middleware leaves it.\<close>

record uploaded_file =
  f_url :: string
  f_cloudinaryId :: string
  f_resourceType :: string
  f_format :: "string option"
  f_duration :: "real option"

text \<open>
  \<open>const { imageType, isVisibleToClient = true } = req.body\<close> followed by
  \<open>isVisibleToClient === "true" || isVisibleToClient === true\<close>: the destructuring default
  replaces an absent (\<open>undefined\<close>) field only.
\<close>

definition visibilityFlag :: "js_value option \<Rightarrow> bool" where
  "visibilityFlag supplied =
     (let isVisibleToClient = (case supplied of None \<Rightarrow> JBool True | Some v \<Rightarrow> v)
      in isVisibleToClient = JString ''true'' \<or> isVisibleToClient = JBool True)"

text \<open>One element of \<open>mediaObjects\<close>; \<open>newId\<close> is the \<open>_id\<close> the sub-document receives.\<close>

definition mediaObject :: "caller \<Rightarrow> js_value option \<Rightarrow> time \<Rightarrow> oid \<Rightarrow> uploaded_file \<Rightarrow> attachment" where
  "mediaObject req_user supplied now newId file =
     \<lparr>att_id = newId,
      att_url = f_url file,
      att_cloudinaryId = f_cloudinaryId file,
      att_thumbnail = f_url file,
      att_mediaType = f_resourceType file,
      att_format = f_format file,
      att_duration = (case f_duration file of None \<Rightarrow> None | Some d \<Rightarrow> if d = 0 then None else Some d),
      att_uploadedAt = now,
      att_uploadedBy = c_id req_user,
      isVisibleToClient = visibilityFlag supplied\<rparr>"

text \<open>\<open>task.images[imageType]\<close>, \<open>None\<close> for \<open>undefined\<close>.\<close>

definition imagesOfType :: "task \<Rightarrow> string \<Rightarrow> attachment list option" where
  "imagesOfType t imageType =
     (if imageType = ''before'' then Some (images_before t)
      else if imageType = ''after'' then Some (images_after t)
      else None)"

definition setImagesOfType :: "task \<Rightarrow> string \<Rightarrow> attachment list \<Rightarrow> task" where
  "setImagesOfType t imageType imgs =
     (if imageType = ''before'' then t\<lparr>images_before := imgs\<rparr>
      else if imageType = ''after'' then t\<lparr>images_after := imgs\<rparr>
      else t)"

text \<open>\<open>fresh i\<close> is the \<open>_id\<close> that the \<open>i\<close>-th pushed sub-document receives.\<close>

definition uploadTaskImages ::
  "database \<Rightarrow> caller \<Rightarrow> oid \<Rightarrow> upload_body \<Rightarrow> uploaded_file list \<Rightarrow> (nat \<Rightarrow> oid) \<Rightarrow> time
     \<Rightarrow> (failure + task) \<times> database" where
  "uploadTaskImages db req_user tid body files fresh now =
     (case tasks db tid of
        None \<Rightarrow> (Inl (Failure 404 ''Task not found'' None), db)
      | Some task \<Rightarrow>
          if c_role req_user = Worker \<and> t_worker task \<noteq> Some (c_id req_user)
          then (Inl (Failure 403 ''Not authorized to upload images for this task'' None), db)
          else
            (case ub_imageType body of
               None \<Rightarrow> (Inl (Failure 400 ''Invalid image type. Must be: before or after'' None), db)
             | Some imageType \<Rightarrow>
                 if imageType \<notin> set [''before'', ''after'']
                 then (Inl (Failure 400 ''Invalid image type. Must be: before or after'' None), db)
                 else if length files = 0
                 then (Inl (Failure 400 ''No files uploaded'' None), db)
                 else
                   let mediaObjects =
                         map (\<lambda>(i, file). mediaObject req_user (ub_isVisibleToClient body) now (fresh i) file)
                             (enumerate 0 files);
                       task' = (case imagesOfType task imageType of
                                  None \<Rightarrow> task
                                | Some imgs \<Rightarrow> setImagesOfType task imageType (imgs @ mediaObjects))
                   in case saveTask db task' of (saved, db') \<Rightarrow> (Inr saved, db')))"

subsection \<open>bulkUpdateImageVisibility\<close>

text \<open>
  The \<open>forEach\<close> over the slot, with its counter: the attachments after the loop and the
  final value of \<open>updatedCount\<close>.
\<close>

fun bulkLoop :: "string list \<Rightarrow> bool \<Rightarrow> attachment list \<Rightarrow> nat \<Rightarrow> attachment list \<times> nat" where
  "bulkLoop imageIds isVisible [] updatedCount = ([], updatedCount)"
| "bulkLoop imageIds isVisible (img # rest) updatedCount =
     (if att_id img \<in> set imageIds
      then (case bulkLoop imageIds isVisible rest (updatedCount + 1) of
              (rest', n) \<Rightarrow> (img\<lparr>isVisibleToClient := isVisible\<rparr> # rest', n))
      else (case bulkLoop imageIds isVisible rest updatedCount of
              (rest', n) \<Rightarrow> (img # rest', n)))"

text \<open>The success payload is \<open>(updatedCount, isVisible)\<close>.\<close>

definition bulkUpdateImageVisibility ::
  "database \<Rightarrow> oid \<Rightarrow> string list \<Rightarrow> string \<Rightarrow> bool \<Rightarrow> (failure + nat \<times> bool) \<times> database" where
  "bulkUpdateImageVisibility db tid imageIds imageType isVisible =
     (case tasks db tid of
        None \<Rightarrow> (Inl (Failure 404 ''Task not found'' None), db)
      | Some task \<Rightarrow>
          (case imagesOfType task imageType of
             None \<Rightarrow> (Inl (Failure 400 ''Invalid image type'' None), db)
           | Some imageArray \<Rightarrow>
               (case bulkLoop imageIds isVisible imageArray 0 of
                  (imageArray', updatedCount) \<Rightarrow>
                    (case saveTask db (setImagesOfType task imageType imageArray') of
                       (saved, db') \<Rightarrow> (Inr (updatedCount, isVisible), db')))))"

subsection \<open>createTask (the revision that snapshots reference media)\<close>













subsection \<open>deleteSectionImage (controllers/deleteImageController.js)\<close>



section \<open>Feedback recorder (controllers/taskController.js)\<close>

text \<open>
  The body of \<open>POST /tasks/:id/feedback\<close>: \<open>fbb_rating\<close> is what \<open>parseInt(rating)\<close> reads,
  \<open>None\<close> for \<open>NaN\<close>; \<open>fbb_imageNumber\<close> is \<open>None\<close> when the field is falsy, otherwise what
  \<open>parseInt(imageNumber)\<close> reads. \<open>req.file\<close>, when present, carries the uploaded photo.
\<close>

record feedback_body =
  fbb_rating :: "int option"
  fbb_comment :: "string option"
  fbb_imageNumber :: "int option option"

record feedback_file =
  cloudinaryUrl :: string
  ff_cloudinaryId :: string

text \<open>
  \<open>save()\<close> rejects the document when a Number field was assigned \<open>NaN\<close> or the rating is
  outside the schema's \<open>min: 1, max: 5\<close>.
\<close>

definition validFeedback :: "feedback_body \<Rightarrow> bool" where
  "validFeedback body =
     ((case fbb_rating body of None \<Rightarrow> False | Some r \<Rightarrow> 1 \<le> r \<and> r \<le> 5)
      \<and> fbb_imageNumber body \<noteq> Some None)"

definition feedbackData :: "feedback_body \<Rightarrow> feedback_file option \<Rightarrow> time \<Rightarrow> feedback" where
  "feedbackData body file now =
     (let fd = \<lparr>fb_rating = (case fbb_rating body of None \<Rightarrow> 0 | Some r \<Rightarrow> r),
                fb_comment = (case fbb_comment body of None \<Rightarrow> [] | Some c \<Rightarrow> c),
                fb_imageNumber = (case fbb_imageNumber body of None \<Rightarrow> None | Some n \<Rightarrow> n),
                fb_image = None,
                fb_cloudinaryId = None,
                fb_submittedAt = now,
                isSatisfiedOnly = False\<rparr>
      in case file of
           None \<Rightarrow> fd
         | Some f \<Rightarrow>
             if cloudinaryUrl f \<noteq> []
             then fd\<lparr>fb_image := Some (cloudinaryUrl f), fb_cloudinaryId := Some (ff_cloudinaryId f)\<rparr>
             else fd)"

definition submitFeedback ::
  "database \<Rightarrow> caller \<Rightarrow> oid \<Rightarrow> feedback_body \<Rightarrow> feedback_file option \<Rightarrow> time
     \<Rightarrow> (failure + feedback) \<times> database" where
  "submitFeedback db req_user tid body file now =
     (case tasks db tid of
        None \<Rightarrow> (Inl (Failure 404 ''Task not found'' None), db)
      | Some task \<Rightarrow>
          if t_status task \<noteq> Completed
          then (Inl (Failure 400 ''Can only provide feedback for completed tasks'' None), db)
          else if c_role req_user = Client \<and> t_client task \<noteq> c_id req_user
          then (Inl (Failure 403 ''Not authorized to feedback this task'' None), db)
          else if \<not> validFeedback body
          then (Inl (Failure 500 ''Failed to submit feedback'' (Some ValidationError)), db)
          else
            let fd = feedbackData body file now
            in case saveTask db (task\<lparr>t_feedback := Some fd\<rparr>) of
                 (saved, db') \<Rightarrow> (Inr fd, db'))"

text \<open>The fixed comment of the shortcut ends in a check mark, here as its three UTF-8 bytes.\<close>

definition satisfiedComment :: string where
  "satisfiedComment = ''Client is satisfied with the work '' @ [CHR 0xE2, CHR 0x9C, CHR 0x93]"

definition satisfiedFeedback :: "time \<Rightarrow> feedback" where
  "satisfiedFeedback now =
     \<lparr>fb_rating = 5,
      fb_comment = satisfiedComment,
      fb_imageNumber = None,
      fb_image = None,
      fb_cloudinaryId = None,
      fb_submittedAt = now,
      isSatisfiedOnly = True\<rparr>"

definition markSatisfied ::
  "database \<Rightarrow> caller \<Rightarrow> oid \<Rightarrow> time \<Rightarrow> (failure + feedback) \<times> database" where
  "markSatisfied db req_user tid now =
     (case tasks db tid of
        None \<Rightarrow> (Inl (Failure 404 ''Task not found'' None), db)
      | Some task \<Rightarrow>
          if t_status task \<noteq> Completed
          then (Inl (Failure 400 ''Can only mark satisfaction for completed tasks'' None), db)
          else if c_role req_user = Client \<and> t_client task \<noteq> c_id req_user
          then (Inl (Failure 403 ''Not authorized'' None), db)
          else
            case saveTask db (task\<lparr>t_feedback := Some (satisfiedFeedback now)\<rparr>) of
              (saved, db') \<Rightarrow> (Inr (satisfiedFeedback now), db'))"

section \<open>Example data\<close>

definition fertilizer :: inventory_item where
  "fertilizer = \<lparr>inv_id = ''i1'', inv_name = ''fertilizer'', quantity_current = 10, quantity_minimum = 2\<rparr>"

definition emptyDb :: database where
  "emptyDb = \<lparr>tasks = Map.empty, sites = Map.empty, clients = Map.empty, users = Map.empty,
               inventory = Map.empty\<rparr>"

text \<open>A small store: one client, one worker, one site of two sections, two stock items, three tasks.\<close>

definition frontPhoto :: reference_image where
  "frontPhoto = \<lparr>ri_id = ''r1'', ri_url = Some ''https://img/front'', ri_cloudinaryId = Some ''cl-front'',
     ri_caption = Some ''front'', ri_uploadedAt = 100, ri_qtn = 2, ri_description = None\<rparr>"

definition backPhoto :: reference_image where
  "backPhoto = \<lparr>ri_id = ''r2'', ri_url = Some ''https://img/back'', ri_cloudinaryId = Some ''cl-back'',
     ri_caption = None, ri_uploadedAt = 200, ri_qtn = 0, ri_description = None\<rparr>"

definition frontGarden :: site_section where
  "frontGarden = \<lparr>sec_id = ''s1'', sec_name = ''front garden'', sec_referenceImages = [frontPhoto],
     sec_lastTaskStatus = None, sec_lastTaskDate = None, sec_lastTaskId = None\<rparr>"

definition backGarden :: site_section where
  "backGarden = \<lparr>sec_id = ''s2'', sec_name = ''back garden'', sec_referenceImages = [backPhoto],
     sec_lastTaskStatus = None, sec_lastTaskDate = None, sec_lastTaskId = None\<rparr>"

text \<open>The site lists the back garden (\<open>s2\<close>) before the front garden (\<open>s1\<close>).\<close>

definition villa :: site where
  "villa = \<lparr>site_id = ''site1'', site_client = ''c1'', site_sections = [backGarden, frontGarden],
     site_totalTasks = 3, site_completedTasks = 1, site_lastVisit = None\<rparr>"

definition seeds :: inventory_item where
  "seeds = \<lparr>inv_id = ''i2'', inv_name = ''seeds'', quantity_current = 1, quantity_minimum = 1\<rparr>"

definition beforePhoto :: attachment where
  "beforePhoto = \<lparr>att_id = ''a1'', att_url = ''https://img/a1'', att_cloudinaryId = ''cl-a1'',
     att_thumbnail = ''https://img/a1'', att_mediaType = ''image'', att_format = Some ''webp'',
     att_duration = None, att_uploadedAt = 300, att_uploadedBy = ''w1'', isVisibleToClient = False\<rparr>"

definition beforeClip :: attachment where
  "beforeClip = \<lparr>att_id = ''a2'', att_url = ''https://img/a2'', att_cloudinaryId = ''cl-a2'',
     att_thumbnail = ''https://img/a2'', att_mediaType = ''video'', att_format = Some ''mp4'',
     att_duration = Some 8, att_uploadedAt = 310, att_uploadedBy = ''w1'', isVisibleToClient = False\<rparr>"

text \<open>\<open>mowing\<close> is in progress, \<open>planting\<close> is unassigned and needs stock, \<open>pruning\<close> is completed.\<close>

definition mowing :: task where
  "mowing = \<lparr>task_id = ''t1'', t_site = Some ''site1'', t_sections = [''s1'', ''s2''], t_client = ''c1'',
     t_worker = Some ''w1'', t_status = InProgress, actualDuration = 0, startLocation = None,
     endLocation = None, images_before = [beforePhoto, beforeClip], images_after = [],
     t_materials = [], cost_labor = 0, cost_materials = 0, cost_total = 0,
     startedAt = Some 0, completedAt = None, t_feedback = None\<rparr>"

definition planting :: task where
  "planting = \<lparr>task_id = ''t2'', t_site = Some ''site1'', t_sections = [''s1''], t_client = ''c1'',
     t_worker = None, t_status = Pending, actualDuration = 0, startLocation = None,
     endLocation = None, images_before = [], images_after = [],
     t_materials = [\<lparr>m_item = Some ''i1'', m_name = ''fertilizer'', m_quantity = 5\<rparr>,
                    \<lparr>m_item = Some ''i2'', m_name = ''seeds'', m_quantity = 3\<rparr>],
     cost_labor = 0, cost_materials = 0, cost_total = 0,
     startedAt = None, completedAt = None, t_feedback = None\<rparr>"

definition pruning :: task where
  "pruning = \<lparr>task_id = ''t3'', t_site = Some ''site1'', t_sections = [''s2''], t_client = ''c1'',
     t_worker = Some ''w1'', t_status = Completed, actualDuration = 1, startLocation = None,
     endLocation = None, images_before = [], images_after = [],
     t_materials = [], cost_labor = 0, cost_materials = 0, cost_total = 0,
     startedAt = Some 0, completedAt = Some 3600000,
     t_feedback = None\<rparr>"

definition demoDb :: database where
  "demoDb = \<lparr>tasks = [''t1'' \<mapsto> mowing, ''t2'' \<mapsto> planting, ''t3'' \<mapsto> pruning],
     sites = [''site1'' \<mapsto> villa],
     clients = [''c1'' \<mapsto> \<lparr>cl_totalTasks = 3, cl_completedTasks = 1\<rparr>],
     users = [''w1'' \<mapsto> \<lparr>u_role = Worker, u_workerCompletedTasks = 1\<rparr>],
     inventory = [''i1'' \<mapsto> fertilizer, ''i2'' \<mapsto> seeds]\<rparr>"

definition gardener :: caller where
  "gardener = \<lparr>c_id = ''w1'', c_role = Worker\<rparr>"

definition manager :: caller where
  "manager = \<lparr>c_id = ''u0'', c_role = Admin\<rparr>"

definition owner :: caller where
  "owner = \<lparr>c_id = ''c1'', c_role = Client\<rparr>"

definition noGps :: gps_body where
  "noGps = \<lparr>latitude = None, longitude = None\<rparr>"

definition atGate :: gps_body where
  "atGate = \<lparr>latitude = Some 30, longitude = Some 31\<rparr>"

definition fiveStars :: feedback_body where
  "fiveStars = \<lparr>fbb_rating = Some 4, fbb_comment = Some ''tidy work'', fbb_imageNumber = None\<rparr>"

definition earlierFeedback :: feedback where
  "earlierFeedback = \<lparr>fb_rating = 2, fb_comment = ''late'', fb_imageNumber = None, fb_image = None,
     fb_cloudinaryId = None, fb_submittedAt = 4000000, isSatisfiedOnly = False\<rparr>"

definition reviewedDb :: database where
  "reviewedDb = demoDb\<lparr>tasks := (tasks demoDb)(''t3'' \<mapsto> pruning\<lparr>t_feedback := Some earlierFeedback\<rparr>)\<rparr>"

text \<open>An upload of one file to the after slot that carries no visibility field.\<close>

definition afterShot :: uploaded_file where
  "afterShot = \<lparr>f_url = ''https://img/n0'', f_cloudinaryId = ''cl-n0'', f_resourceType = ''image'',
     f_format = Some ''webp'', f_duration = None\<rparr>"

definition plainUpload :: upload_body where
  "plainUpload = \<lparr>ub_imageType = Some ''after'', ub_isVisibleToClient = None\<rparr>"

definition freshIds :: "nat \<Rightarrow> oid" where
  "freshIds i = replicate (Suc i) CHR ''n''"

definition mowingWithAfterShot :: task where
  "mowingWithAfterShot = mowing\<lparr>images_after :=
     [\<lparr>att_id = ''n'', att_url = ''https://img/n0'', att_cloudinaryId = ''cl-n0'',
       att_thumbnail = ''https://img/n0'', att_mediaType = ''image'', att_format = Some ''webp'',
       att_duration = None, att_uploadedAt = 400, att_uploadedBy = ''w1'',
       isVisibleToClient = True\<rparr>]\<rparr>"

text \<open>The update that assigns a first worker.\<close>

definition hireBody :: update_body where
  "hireBody = \<lparr>b_worker = Some ''w1'', b_status = None, b_completedAt = None\<rparr>"







text \<open>
  The generic update that marks a task completed, and the site as that update leaves it at
  time 7200000.
\<close>

definition doneBody :: update_body where
  "doneBody = \<lparr>b_worker = None, b_status = Some Completed, b_completedAt = None\<rparr>"

definition villaAfterUpdate :: site where
  "villaAfterUpdate = villa\<lparr>site_completedTasks := 2, site_lastVisit := Some 7200000,
     site_sections :=
       [backGarden\<lparr>sec_lastTaskStatus := Some Completed, sec_lastTaskDate := Some 7200000,
                   sec_lastTaskId := Some ''t1''\<rparr>,
        frontGarden\<lparr>sec_lastTaskStatus := Some Completed, sec_lastTaskDate := Some 7200000,
                    sec_lastTaskId := Some ''t1''\<rparr>]\<rparr>"

section \<open>Properties\<close>

subsection \<open>The pre-save hook and the worker transitions\<close>

lemma preSave_fields [simp]:
  "task_id (preSave t) = task_id t"
  "t_site (preSave t) = t_site t"
  "t_sections (preSave t) = t_sections t"
  "t_client (preSave t) = t_client t"
  "t_worker (preSave t) = t_worker t"
  "t_status (preSave t) = t_status t"
  "startLocation (preSave t) = startLocation t"
  "endLocation (preSave t) = endLocation t"
  "images_before (preSave t) = images_before t"
  "images_after (preSave t) = images_after t"
  "t_materials (preSave t) = t_materials t"
  "startedAt (preSave t) = startedAt t"
  "completedAt (preSave t) = completedAt t"
  "t_feedback (preSave t) = t_feedback t"
  "cost_labor (preSave t) = cost_labor t"
  "cost_materials (preSave t) = cost_materials t"
  by (simp_all add: preSave_def Let_def split: option.splits)

lemma preSave_invariant:
  "cost_total (preSave t) = cost_labor (preSave t) + cost_materials (preSave t)"
  "startedAt t = Some s \<Longrightarrow> completedAt t = Some c \<Longrightarrow>
     actualDuration (preSave t) = js_round (of_int (c - s) / 3600000 * 100) / 100"
  by (simp_all add: preSave_def Let_def split: option.splits)

lemma saveTask_eq: "saveTask db t = (preSave t, db\<lparr>tasks := (tasks db)(task_id t \<mapsto> preSave t)\<rparr>)"
  by (simp add: saveTask_def Let_def)

lemma startTask_assigned:
  assumes "tasks db tid = Some t" and "task_id t = tid" and "t_worker t = Some (c_id req_user)"
  shows "startTask db req_user tid body now =
           (let saved = preSave
                  (case gpsFix body now of
                     None \<Rightarrow> t\<lparr>t_status := InProgress, startedAt := Some now\<rparr>
                   | Some fix \<Rightarrow> t\<lparr>t_status := InProgress, startedAt := Some now,
                                  startLocation := Some fix\<rparr>)
            in (Inr saved, db\<lparr>tasks := (tasks db)(tid \<mapsto> saved)\<rparr>))"
  using assms by (simp add: startTask_def saveTask_eq Let_def split: option.splits)

lemma completeTask_assigned:
  assumes "tasks db tid = Some t" and "task_id t = tid" and "t_worker t = Some (c_id req_user)"
      and "t_status t \<noteq> Completed"
  shows "completeTask db req_user tid body now =
           (let saved = preSave
                  (case gpsFix body now of
                     None \<Rightarrow> t\<lparr>t_status := Completed, completedAt := Some now\<rparr>
                   | Some fix \<Rightarrow> t\<lparr>t_status := Completed, completedAt := Some now,
                                  endLocation := Some fix\<rparr>)
            in (Inr saved, db\<lparr>tasks := (tasks db)(tid \<mapsto> saved)\<rparr>))"
  using assms by (simp add: completeTask_def saveTask_eq Let_def split: option.splits)

lemma completeTask_completed:
  assumes "tasks db tid = Some t" and "t_worker t = Some (c_id req_user)"
      and "t_status t = Completed"
  shows "completeTask db req_user tid body now =
           (Inl (Failure 400 ''Task already completed'' None), db)"
  using assms by (simp add: completeTask_def)

subsection \<open>Media slots and the bulk loop\<close>

lemma imagesOfType_preSave [simp]: "imagesOfType (preSave t) ty = imagesOfType t ty"
  by (simp add: imagesOfType_def)

lemma imagesOfType_set:
  "imagesOfType t ty = Some old \<Longrightarrow> imagesOfType (setImagesOfType t ty imgs) ty = Some imgs"
  by (auto simp add: imagesOfType_def setImagesOfType_def split: if_splits)

lemma task_id_setImagesOfType [simp]: "task_id (setImagesOfType t ty imgs) = task_id t"
  by (simp add: setImagesOfType_def)

lemma bulkLoop_eq:
  "bulkLoop imageIds v imgs n =
     (map (\<lambda>a. if att_id a \<in> set imageIds then a\<lparr>isVisibleToClient := v\<rparr> else a) imgs,
      n + length (filter (\<lambda>a. att_id a \<in> set imageIds) imgs))"
  by (induction imgs arbitrary: n) simp_all

lemma count_one_valid_one_missing:
  assumes "distinct (map att_id imgs)" and "a \<in> att_id ` set imgs" and "b \<notin> att_id ` set imgs"
  shows "length (filter (\<lambda>x. att_id x \<in> set [a, b]) imgs) = 1"
  using assms
proof (induction imgs)
  case Nil
  then show ?case by simp
next
  case (Cons x xs)
  show ?case
  proof (cases "att_id x = a")
    case True
    with Cons.prems have "a \<notin> att_id ` set xs" and "b \<notin> att_id ` set xs" by auto
    then have "filter (\<lambda>x. att_id x \<in> set [a, b]) xs = []"
      by (auto simp add: filter_empty_conv)
    with True show ?thesis by simp
  next
    case False
    with Cons.prems have "a \<in> att_id ` set xs" and "b \<notin> att_id ` set xs"
      and "distinct (map att_id xs)" and "att_id x \<noteq> b" by auto
    with Cons.IH False show ?thesis by simp
  qed
qed

lemma bulkUpdateImageVisibility_eq:
  assumes "tasks db tid = Some t" and "task_id t = tid" and "imagesOfType t imageType = Some imgs"
  shows "bulkUpdateImageVisibility db tid imageIds imageType isVisible =
           (let saved = preSave (setImagesOfType t imageType
                  (map (\<lambda>a. if att_id a \<in> set imageIds then a\<lparr>isVisibleToClient := isVisible\<rparr> else a) imgs))
            in (Inr (length (filter (\<lambda>a. att_id a \<in> set imageIds) imgs), isVisible),
                db\<lparr>tasks := (tasks db)(tid \<mapsto> saved)\<rparr>))"
  using assms by (simp add: bulkUpdateImageVisibility_def bulkLoop_eq saveTask_eq Let_def)

subsection \<open>Uploads\<close>

lemma visibilityFlag_default: "visibilityFlag None = True"
  by (simp add: visibilityFlag_def)

lemma mediaObject_flag [simp]:
  "isVisibleToClient (mediaObject req_user supplied now newId file) = visibilityFlag supplied"
  by (simp add: mediaObject_def)

lemma uploadTaskImages_eq:
  assumes "tasks db tid = Some t" and "task_id t = tid"
      and "\<not> (c_role req_user = Worker \<and> t_worker t \<noteq> Some (c_id req_user))"
      and "ub_imageType body = Some imageType" and "imagesOfType t imageType = Some old"
      and "files \<noteq> []"
  shows "uploadTaskImages db req_user tid body files fresh now =
           (let saved = preSave (setImagesOfType t imageType
                  (old @ map (\<lambda>(i, file). mediaObject req_user (ub_isVisibleToClient body) now (fresh i) file)
                             (enumerate 0 files)))
            in (Inr saved, db\<lparr>tasks := (tasks db)(tid \<mapsto> saved)\<rparr>))"
proof -
  from assms(5) have "imageType = ''before'' \<or> imageType = ''after''"
    by (auto simp add: imagesOfType_def split: if_splits)
  then have "imageType \<in> set [''before'', ''after'']" by auto
  with assms show ?thesis
    by (simp add: uploadTaskImages_def saveTask_eq Let_def)
qed

subsection \<open>The deduction loop\<close>

lemma deduct_cases:
  "deduct db it q = (Inl (Error ''Insufficient stock''), db) \<and> quantity_current it < q
   \<or> (\<exists>it'. deduct db it q = (Inr it', db\<lparr>inventory := (inventory db)(inv_id it \<mapsto> it')\<rparr>))"
  by (simp add: deduct_def Let_def)

lemma deduct_keeps [simp]:
  "tasks (snd (deduct db it q)) = tasks db"
  "sites (snd (deduct db it q)) = sites db"
  "clients (snd (deduct db it q)) = clients db"
  "users (snd (deduct db it q)) = users db"
  by (simp_all add: deduct_def Let_def)

lemma deductMaterials_keeps:
  "tasks (snd (deductMaterials db ms)) = tasks db
   \<and> sites (snd (deductMaterials db ms)) = sites db
   \<and> clients (snd (deductMaterials db ms)) = clients db
   \<and> users (snd (deductMaterials db ms)) = users db"
proof (induction ms arbitrary: db)
  case Nil
  show ?case by simp
next
  case (Cons m ms)
  show ?case
  proof (cases "m_item m")
    case None
    with Cons.IH [of db] show ?thesis by simp
  next
    case (Some i)
    show ?thesis
    proof (cases "inventory db i")
      case None
      with Some Cons.IH [of db] show ?thesis by simp
    next
      case (Some it)
      obtain r db1 where d: "deduct db it (m_quantity m) = (r, db1)" by (cases "deduct db it (m_quantity m)")
      have k: "tasks db1 = tasks db" "sites db1 = sites db" "clients db1 = clients db" "users db1 = users db"
        using deduct_keeps [of db it "m_quantity m"] d by simp_all
      show ?thesis
      proof (cases r)
        case (Inl e)
        with \<open>m_item m = Some i\<close> Some d k show ?thesis by simp
      next
        case (Inr it')
        with \<open>m_item m = Some i\<close> Some d k Cons.IH [of db1] show ?thesis by simp
      qed
    qed
  qed
qed

lemma deductMaterials_failure:
  "deductMaterials db ms = (Some e, db') \<Longrightarrow>
     e = Error ''Insufficient stock''
     \<and> (\<exists>ms1 m ms2 i it. ms = ms1 @ m # ms2 \<and> deductMaterials db ms1 = (None, db')
           \<and> m_item m = Some i \<and> inventory db' i = Some it
           \<and> quantity_current it < m_quantity m)"
proof (induction ms arbitrary: db)
  case Nil
  then show ?case by simp
next
  case (Cons m ms)
  let ?P = "\<lambda>d xs. e = Error ''Insufficient stock''
     \<and> (\<exists>ms1 m' ms2 i it. xs = ms1 @ m' # ms2 \<and> deductMaterials d ms1 = (None, db')
           \<and> m_item m' = Some i \<and> inventory db' i = Some it
           \<and> quantity_current it < m_quantity m')"
  have skip: "?P db (m # ms)" if rest: "deductMaterials db ms = (Some e, db')"
    and same: "\<And>ms1. deductMaterials db (m # ms1) = deductMaterials db ms1"
  proof -
    from Cons.IH [OF rest] obtain ms1 m' ms2 i it where
      e: "e = Error ''Insufficient stock''" and
      s: "ms = ms1 @ m' # ms2" "deductMaterials db ms1 = (None, db')"
         "m_item m' = Some i" "inventory db' i = Some it" "quantity_current it < m_quantity m'"
      by blast
    have "m # ms = (m # ms1) @ m' # ms2" using s(1) by simp
    moreover have "deductMaterials db (m # ms1) = (None, db')" using same s(2) by simp
    ultimately show ?thesis using e s(3-5) by blast
  qed
  show ?case
  proof (cases "m_item m")
    case None
    then have "\<And>ms1. deductMaterials db (m # ms1) = deductMaterials db ms1" by simp
    moreover from this Cons.prems have "deductMaterials db ms = (Some e, db')" by simp
    ultimately show ?thesis using skip by blast
  next
    case (Some i)
    show ?thesis
    proof (cases "inventory db i")
      case None
      with Some have "\<And>ms1. deductMaterials db (m # ms1) = deductMaterials db ms1" by simp
      moreover from this Cons.prems have "deductMaterials db ms = (Some e, db')" by simp
      ultimately show ?thesis using skip by blast
    next
      case (Some it)
      note item = \<open>m_item m = Some i\<close> and found = Some
      from deduct_cases [of db it "m_quantity m"] show ?thesis
      proof (elim disjE conjE exE)
        assume thrown: "deduct db it (m_quantity m) = (Inl (Error ''Insufficient stock''), db)"
          and low: "quantity_current it < m_quantity m"
        with item found Cons.prems have "e = Error ''Insufficient stock''" and "db' = db" by simp_all
        moreover have "m # ms = [] @ m # ms" by simp
        moreover have "deductMaterials db [] = (None, db)" by simp
        ultimately show ?thesis using item found low by blast
      next
        fix it'
        assume ok: "deduct db it (m_quantity m) = (Inr it', db\<lparr>inventory := (inventory db)(inv_id it \<mapsto> it')\<rparr>)"
        let ?db1 = "db\<lparr>inventory := (inventory db)(inv_id it \<mapsto> it')\<rparr>"
        from item found ok have step: "\<And>xs. deductMaterials db (m # xs) = deductMaterials ?db1 xs"
          by simp
        with Cons.prems have "deductMaterials ?db1 ms = (Some e, db')" by simp
        from Cons.IH [OF this] obtain ms1 m' ms2 j jt where
          e: "e = Error ''Insufficient stock''" and
          s: "ms = ms1 @ m' # ms2" "deductMaterials ?db1 ms1 = (None, db')"
             "m_item m' = Some j" "inventory db' j = Some jt" "quantity_current jt < m_quantity m'"
          by blast
        have "m # ms = (m # ms1) @ m' # ms2" using s(1) by simp
        moreover have "deductMaterials db (m # ms1) = (None, db')" using step s(2) by simp
        ultimately show ?thesis using e s(3-5) by blast
      qed
    qed
  qed
qed

subsection \<open>Task creation and the snapshot\<close>







subsection \<open>The two ways of completing a task\<close>

lemma completeTask_keeps_counters:
  "clients (snd (completeTask db req_user tid body now)) = clients db
   \<and> users (snd (completeTask db req_user tid body now)) = users db
   \<and> sites (snd (completeTask db req_user tid body now)) = sites db"
  by (simp add: completeTask_def saveTask_eq Let_def split: option.splits)

lemma completeTask_example:
  "completeTask demoDb gardener ''t1'' noGps 7200000 =
     (Inr (mowing\<lparr>t_status := Completed, completedAt := Some 7200000, actualDuration := 2\<rparr>),
      demoDb\<lparr>tasks := (tasks demoDb)(''t1'' \<mapsto>
         mowing\<lparr>t_status := Completed, completedAt := Some 7200000, actualDuration := 2\<rparr>)\<rparr>)"
  by (simp add: completeTask_def saveTask_def preSave_def js_round_def gpsFix_def demoDb_def
      mowing_def gardener_def noGps_def Let_def)

lemma updateTask_example:
  "updateTask demoDb gardener ''t1'' doneBody 7200000 =
     (Inr (Some (mowing\<lparr>t_status := Completed, completedAt := Some 7200000\<rparr>)),
      demoDb\<lparr>tasks := (tasks demoDb)(''t1'' \<mapsto> mowing\<lparr>t_status := Completed, completedAt := Some 7200000\<rparr>),
             sites := [''site1'' \<mapsto> villaAfterUpdate],
             clients := [''c1'' \<mapsto> \<lparr>cl_totalTasks = 3, cl_completedTasks = 2\<rparr>],
             users := [''w1'' \<mapsto> \<lparr>u_role = Worker, u_workerCompletedTasks = 2\<rparr>]\<rparr>)"
  by (simp add: updateTask_def assignmentStep_def completedCascade_def incClientCompleted_def
      incWorkerCompleted_def incSiteCompleted_def propagateLastTask_def updateSectionLastTask_def
      sectionsId_def findByIdAndUpdateTask_def applyBody_def
      demoDb_def mowing_def gardener_def doneBody_def villa_def villaAfterUpdate_def
      backGarden_def frontGarden_def Let_def)

subsection \<open>Claims\<close>

text \<open>
  C1. A completion by the assigned worker is to increment the completed-task counters of
  client, worker and site, set the site's last visit and mark every section of the task.
  The worker's \<open>completeTask\<close> does not: on the example store the in-progress task
  \<open>t1\<close> of worker \<open>w1\<close> becomes completed while the client, user and site collections stay exactly
  as they were (counters at 1, no last visit, no section marked). The generic \<open>updateTask\<close>
  with status completed, called by the same worker on the same store, does all of it
  (counters at 2, last visit set, both sections marked completed with the task's id).
\<close>

theorem completeTask_skips_cascade:
  "tasks demoDb ''t1'' = Some mowing \<and> t_worker mowing = Some (c_id gardener)
   \<and> t_status mowing = InProgress \<and> t_sections mowing = [''s1'', ''s2'']
   \<and> map_option t_status (tasks (snd (completeTask demoDb gardener ''t1'' noGps 7200000)) ''t1'')
       = Some Completed
   \<and> clients (snd (completeTask demoDb gardener ''t1'' noGps 7200000)) = clients demoDb
   \<and> users (snd (completeTask demoDb gardener ''t1'' noGps 7200000)) = users demoDb
   \<and> sites (snd (completeTask demoDb gardener ''t1'' noGps 7200000)) = sites demoDb
   \<and> map_option cl_completedTasks (clients demoDb ''c1'') = Some 1
   \<and> map_option u_workerCompletedTasks (users demoDb ''w1'') = Some 1
   \<and> map_option site_completedTasks (sites demoDb ''site1'') = Some 1
   \<and> map_option site_lastVisit (sites demoDb ''site1'') = Some None
   \<and> map_option (map sec_lastTaskStatus \<circ> site_sections) (sites demoDb ''site1'') = Some [None, None]
   \<and> map_option cl_completedTasks
        (clients (snd (updateTask demoDb gardener ''t1'' doneBody 7200000)) ''c1'') = Some 2
   \<and> map_option u_workerCompletedTasks
        (users (snd (updateTask demoDb gardener ''t1'' doneBody 7200000)) ''w1'') = Some 2
   \<and> sites (snd (updateTask demoDb gardener ''t1'' doneBody 7200000)) ''site1'' = Some villaAfterUpdate"
proof -
  have a: "tasks demoDb ''t1'' = Some mowing" by (simp add: demoDb_def)
  have b: "t_worker mowing = Some (c_id gardener)" "t_status mowing = InProgress"
    "t_sections mowing = [''s1'', ''s2'']"
    by (simp_all add: mowing_def gardener_def)
  have c: "map_option cl_completedTasks (clients demoDb ''c1'') = Some 1"
    "map_option u_workerCompletedTasks (users demoDb ''w1'') = Some 1"
    "map_option site_completedTasks (sites demoDb ''site1'') = Some 1"
    "map_option site_lastVisit (sites demoDb ''site1'') = Some None"
    "map_option (map sec_lastTaskStatus \<circ> site_sections) (sites demoDb ''site1'') = Some [None, None]"
    by (simp_all add: demoDb_def villa_def backGarden_def frontGarden_def)
  show ?thesis
    using a b c completeTask_keeps_counters [of demoDb gardener "''t1''" noGps 7200000]
    by (simp add: completeTask_example updateTask_example)
qed

text \<open>
  C2, as the handler behaves. When the first assignment of a worker fails, it fails in the
  deduction loop: the response is status 500 "Server error" whose error text is the fixed
  string "Insufficient stock" (no item is named); the task is not updated (no worker, no
  status change) and sites, clients and users are untouched. The inventory is left as the
  loop left it: the materials before the offending one have been deducted and saved
  (\<open>deductMaterials db ms1 = (None, db')\<close>), the offending material's item holds less than
  the requested quantity, and the materials after it were not reached.
\<close>

theorem updateTask_insufficient_stock:
  assumes "tasks db tid = Some t" and "c_role req_user \<noteq> Worker"
      and "b_worker body = Some w" and "t_worker t = None"
      and "updateTask db req_user tid body now = (Inl failed, db')"
  shows "failed = Failure 500 ''Server error'' (Some (Error ''Insufficient stock''))
       \<and> tasks db' = tasks db \<and> sites db' = sites db \<and> clients db' = clients db \<and> users db' = users db
       \<and> (\<exists>ms1 m ms2 i it. t_materials t = ms1 @ m # ms2
             \<and> deductMaterials db ms1 = (None, db')
             \<and> m_item m = Some i \<and> inventory db' i = Some it
             \<and> quantity_current it < m_quantity m)"
proof -
  obtain r d where dm: "deductMaterials db (t_materials t) = (r, d)"
    by (cases "deductMaterials db (t_materials t)")
  have kept: "tasks d = tasks db" "sites d = sites db" "clients d = clients db" "users d = users db"
    using deductMaterials_keeps [of db "t_materials t"] dm by simp_all
  show ?thesis
  proof (cases r)
    case None
    have "assignmentStep db t body = (None, (if t_materials t \<noteq> [] then d else db), body\<lparr>b_status := Some Assigned\<rparr>)"
      using assms(3,4) dm None by (simp add: assignmentStep_def)
    moreover have "tasks (if t_materials t \<noteq> [] then d else db) tid = Some t"
      using kept(1) assms(1) by simp
    ultimately have "\<exists>t' d'. updateTask db req_user tid body now = (Inr t', d')"
      using assms(1,2) by (simp add: updateTask_def findByIdAndUpdateTask_def Let_def)
    with assms(5) show ?thesis by simp
  next
    case (Some e)
    with dm have ne: "t_materials t \<noteq> []" by (cases "t_materials t") simp_all
    have "assignmentStep db t body = (Some e, d, body)"
      using assms(3,4) dm Some ne by (simp add: assignmentStep_def)
    then have "updateTask db req_user tid body now = (Inl (Failure 500 ''Server error'' (Some e)), d)"
      using assms(1,2) by (simp add: updateTask_def)
    with assms(5) have f: "failed = Failure 500 ''Server error'' (Some e)" and d: "db' = d" by simp_all
    from deductMaterials_failure [of db "t_materials t" e d] dm Some
    have "e = Error ''Insufficient stock''"
      and "\<exists>ms1 m ms2 i it. t_materials t = ms1 @ m # ms2 \<and> deductMaterials db ms1 = (None, d)
             \<and> m_item m = Some i \<and> inventory d i = Some it \<and> quantity_current it < m_quantity m"
      by simp_all
    with f d kept show ?thesis by simp
  qed
qed

theorem updateTask_insufficient_stock_witness:
  "tasks demoDb ''t2'' = Some planting \<and> c_role manager \<noteq> Worker
   \<and> b_worker hireBody = Some ''w1'' \<and> t_worker planting = None
   \<and> updateTask demoDb manager ''t2'' hireBody 1000 =
        (Inl (Failure 500 ''Server error'' (Some (Error ''Insufficient stock''))),
         demoDb\<lparr>inventory := (inventory demoDb)(''i1'' \<mapsto> fertilizer\<lparr>quantity_current := 5\<rparr>)\<rparr>)
   \<and> tasks (demoDb\<lparr>inventory := (inventory demoDb)(''i1'' \<mapsto> fertilizer\<lparr>quantity_current := 5\<rparr>)\<rparr>)
       = tasks demoDb
   \<and> (\<exists>ms1 m ms2 i it. t_materials planting = ms1 @ m # ms2
         \<and> deductMaterials demoDb ms1 =
             (None, demoDb\<lparr>inventory := (inventory demoDb)(''i1'' \<mapsto> fertilizer\<lparr>quantity_current := 5\<rparr>)\<rparr>)
         \<and> m_item m = Some i
         \<and> inventory (demoDb\<lparr>inventory := (inventory demoDb)(''i1'' \<mapsto> fertilizer\<lparr>quantity_current := 5\<rparr>)\<rparr>) i = Some it
         \<and> quantity_current it < m_quantity m)"
proof -
  let ?db' = "demoDb\<lparr>inventory := (inventory demoDb)(''i1'' \<mapsto> fertilizer\<lparr>quantity_current := 5\<rparr>)\<rparr>"
  have h1: "tasks demoDb ''t2'' = Some planting" by (simp add: demoDb_def)
  have h2: "c_role manager \<noteq> Worker" by (simp add: manager_def)
  have h3: "b_worker hireBody = Some ''w1''" by (simp add: hireBody_def)
  have h4: "t_worker planting = None" by (simp add: planting_def)
  have h5: "updateTask demoDb manager ''t2'' hireBody 1000 =
              (Inl (Failure 500 ''Server error'' (Some (Error ''Insufficient stock''))), ?db')"
    by (simp add: updateTask_def assignmentStep_def deduct_def demoDb_def planting_def manager_def
        hireBody_def fertilizer_def seeds_def Let_def)
  from updateTask_insufficient_stock [OF h1 h2 h3 h4 h5] h1 h2 h3 h4 h5
  show ?thesis by simp
qed

text \<open>
  C2 as written (no deduction committed for any material) fails on the example store:
  5 of fertilizer, then 3 of seeds with 1 in stock; the assignment fails and the fertilizer
  stays at 5 instead of 10.
\<close>

theorem updateTask_partial_deduction_counterexample:
  "t_worker planting = None \<and> b_worker hireBody = Some ''w1''
   \<and> map m_quantity (t_materials planting) = [5, 3]
   \<and> map_option quantity_current (inventory demoDb ''i1'') = Some 10
   \<and> map_option quantity_current (inventory demoDb ''i2'') = Some 1
   \<and> fst (updateTask demoDb manager ''t2'' hireBody 1000)
       = Inl (Failure 500 ''Server error'' (Some (Error ''Insufficient stock'')))
   \<and> map_option quantity_current (inventory (snd (updateTask demoDb manager ''t2'' hireBody 1000)) ''i1'')
       = Some 5"
  by (simp add: updateTask_def assignmentStep_def deduct_def demoDb_def planting_def manager_def
      hireBody_def fertilizer_def seeds_def Let_def)




text \<open>
  C4. Completing twice: on a task that is not yet completed, the first call by the assigned
  worker succeeds; the second call is rejected with "Task already completed" (status 400, the
  conflict of the error taxonomy) and returns the store it was given, so the task and every
  counter of site, client and worker are unchanged by it.
\<close>

theorem completeTask_twice:
  assumes "tasks db tid = Some t" and "task_id t = tid" and "t_worker t = Some (c_id req_user)"
      and "t_status t \<noteq> Completed"
  shows "\<exists>saved db1. completeTask db req_user tid body now = (Inr saved, db1)
           \<and> t_status saved = Completed \<and> completedAt saved = Some now
           \<and> completeTask db1 req_user tid body' now' =
               (Inl (Failure 400 ''Task already completed'' None), db1)"
proof -
  define saved where "saved = preSave
      (case gpsFix body now of
         None \<Rightarrow> t\<lparr>t_status := Completed, completedAt := Some now\<rparr>
       | Some fix \<Rightarrow> t\<lparr>t_status := Completed, completedAt := Some now, endLocation := Some fix\<rparr>)"
  define db1 where "db1 = db\<lparr>tasks := (tasks db)(tid \<mapsto> saved)\<rparr>"
  have first: "completeTask db req_user tid body now = (Inr saved, db1)"
    using completeTask_assigned [OF assms, of body now] by (simp add: saved_def db1_def Let_def)
  have st: "t_status saved = Completed" and ca: "completedAt saved = Some now"
    and w: "t_worker saved = Some (c_id req_user)"
    using assms(3) by (simp_all add: saved_def split: option.splits)
  have stored: "tasks db1 tid = Some saved" by (simp add: db1_def)
  have second: "completeTask db1 req_user tid body' now' =
                  (Inl (Failure 400 ''Task already completed'' None), db1)"
    by (rule completeTask_completed [OF stored w st])
  from first st ca second show ?thesis by blast
qed

theorem completeTask_twice_witness:
  "tasks demoDb ''t1'' = Some mowing \<and> task_id mowing = ''t1''
   \<and> t_worker mowing = Some (c_id gardener) \<and> t_status mowing \<noteq> Completed
   \<and> (\<exists>saved db1. completeTask demoDb gardener ''t1'' atGate 7200000 = (Inr saved, db1)
          \<and> t_status saved = Completed \<and> completedAt saved = Some 7200000
          \<and> completeTask db1 gardener ''t1'' noGps 7200500 =
               (Inl (Failure 400 ''Task already completed'' None), db1))"
proof -
  have h1: "tasks demoDb ''t1'' = Some mowing" by (simp add: demoDb_def)
  have h2: "task_id mowing = ''t1''" by (simp add: mowing_def)
  have h3: "t_worker mowing = Some (c_id gardener)" by (simp add: mowing_def gardener_def)
  have h4: "t_status mowing \<noteq> Completed" by (simp add: mowing_def)
  from completeTask_twice [OF h1 h2 h3 h4, of atGate 7200000 noGps 7200500] h1 h2 h3 h4
  show ?thesis by simp
qed

text \<open>
  C5. Deducting \<open>q\<close> from an item whose current stock is \<open>c\<close>: when \<open>q \<le> c\<close> the call
  succeeds, the returned and the stored item have \<open>current = c - q\<close>; when \<open>q > c\<close> the call
  fails with an error and the store is unchanged (the stored stock stays \<open>c\<close>).
\<close>

theorem deduct_spec:
  assumes "quantity_current it = c"
  shows "(q \<le> c \<longrightarrow>
            deduct db it q =
              (Inr (it\<lparr>quantity_current := c - q\<rparr>),
               db\<lparr>inventory := (inventory db)(inv_id it \<mapsto> it\<lparr>quantity_current := c - q\<rparr>)\<rparr>))
       \<and> (c < q \<longrightarrow> deduct db it q = (Inl (Error ''Insufficient stock''), db))"
  using assms by (simp add: deduct_def Let_def)

theorem deduct_spec_witness:
  "quantity_current fertilizer = 10
   \<and> deduct emptyDb fertilizer 4 =
        (Inr (fertilizer\<lparr>quantity_current := 6\<rparr>),
         emptyDb\<lparr>inventory := [''i1'' \<mapsto> fertilizer\<lparr>quantity_current := 6\<rparr>]\<rparr>)
   \<and> deduct emptyDb fertilizer 11 = (Inl (Error ''Insufficient stock''), emptyDb)"
proof -
  have c: "quantity_current fertilizer = 10" by (simp add: fertilizer_def)
  have i: "inv_id fertilizer = ''i1''" by (simp add: fertilizer_def)
  have e: "inventory emptyDb = Map.empty" by (simp add: emptyDb_def)
  from deduct_spec [OF c, of 4 emptyDb] deduct_spec [OF c, of 11 emptyDb] c i e
  show ?thesis by simp
qed

text \<open>
  C6. The cost and duration invariant is to hold after every persisting operation, the
  generic update path included. The pre-save hook establishes it (\<open>preSave_invariant\<close>), but \<open>updateTask\<close> persists through an update query that does not run the hook: completing
  the example task \<open>t1\<close> (started at 0) through \<open>updateTask\<close> at time 7200000 stores both
  timestamps with \<open>actualDuration\<close> still 0, where two hours rounded to two decimals is 2;
  \<open>completeTask\<close> on the same store, which saves, stores 2.
\<close>

theorem updateTask_skips_pre_save:
  "fst (updateTask demoDb manager ''t1'' doneBody 7200000)
     = Inr (Some (mowing\<lparr>t_status := Completed, completedAt := Some 7200000\<rparr>))
   \<and> tasks (snd (updateTask demoDb manager ''t1'' doneBody 7200000)) ''t1''
     = Some (mowing\<lparr>t_status := Completed, completedAt := Some 7200000\<rparr>)
   \<and> startedAt (mowing\<lparr>t_status := Completed, completedAt := Some 7200000\<rparr>) = Some 0
   \<and> completedAt (mowing\<lparr>t_status := Completed, completedAt := Some 7200000\<rparr>) = Some 7200000
   \<and> actualDuration (mowing\<lparr>t_status := Completed, completedAt := Some 7200000\<rparr>) = 0
   \<and> js_round (of_int (7200000 - 0) / (1000 * 60 * 60) * 100) / 100 = 2
   \<and> map_option actualDuration (tasks (snd (completeTask demoDb gardener ''t1'' noGps 7200000)) ''t1'')
     = Some 2"
proof -
  have u: "updateTask demoDb manager ''t1'' doneBody 7200000 =
     (Inr (Some (mowing\<lparr>t_status := Completed, completedAt := Some 7200000\<rparr>)),
      demoDb\<lparr>tasks := (tasks demoDb)(''t1'' \<mapsto> mowing\<lparr>t_status := Completed, completedAt := Some 7200000\<rparr>),
             sites := [''site1'' \<mapsto> villaAfterUpdate],
             clients := [''c1'' \<mapsto> \<lparr>cl_totalTasks = 3, cl_completedTasks = 2\<rparr>],
             users := [''w1'' \<mapsto> \<lparr>u_role = Worker, u_workerCompletedTasks = 2\<rparr>]\<rparr>)"
    by (simp add: updateTask_def assignmentStep_def completedCascade_def incClientCompleted_def
      incWorkerCompleted_def incSiteCompleted_def propagateLastTask_def updateSectionLastTask_def
      sectionsId_def findByIdAndUpdateTask_def applyBody_def
      demoDb_def mowing_def manager_def doneBody_def villa_def villaAfterUpdate_def
      backGarden_def frontGarden_def Let_def)
  have r: "js_round (of_int (7200000 - 0) / (1000 * 60 * 60) * 100) / 100 = 2"
    by (simp add: js_round_def)
  show ?thesis using r by (simp add: u completeTask_example) (simp add: mowing_def)
qed

text \<open>
  C7, as the handler behaves. An upload that carries no visibility field takes the
  destructuring default \<open>true\<close>: when the upload succeeds (the task exists, a caller of role
  worker is its worker, the slot is before or after, at least one file), one attachment per
  file is appended to the slot and every appended attachment is visible to the client.
\<close>

theorem uploadTaskImages_default_visible:
  assumes "tasks db tid = Some t" and "task_id t = tid"
      and "\<not> (c_role req_user = Worker \<and> t_worker t \<noteq> Some (c_id req_user))"
      and "ub_imageType body = Some imageType" and "imagesOfType t imageType = Some old"
      and "files \<noteq> []"
      and "ub_isVisibleToClient body = None"
  shows "\<exists>saved db' appended.
           uploadTaskImages db req_user tid body files fresh now = (Inr saved, db')
           \<and> tasks db' tid = Some saved
           \<and> imagesOfType saved imageType = Some (old @ appended)
           \<and> length appended = length files
           \<and> list_all isVisibleToClient appended"
proof -
  let ?appended = "map (\<lambda>(i, file). mediaObject req_user (ub_isVisibleToClient body) now (fresh i) file)
                       (enumerate 0 files)"
  let ?saved = "preSave (setImagesOfType t imageType (old @ ?appended))"
  let ?db' = "db\<lparr>tasks := (tasks db)(tid \<mapsto> ?saved)\<rparr>"
  have "uploadTaskImages db req_user tid body files fresh now = (Inr ?saved, ?db')"
    using uploadTaskImages_eq [OF assms(1-6), of fresh now] by (simp add: Let_def)
  moreover have "tasks ?db' tid = Some ?saved" by simp
  moreover have "imagesOfType ?saved imageType = Some (old @ ?appended)"
    using imagesOfType_set [OF assms(5)] by simp
  moreover have "length ?appended = length files" by simp
  moreover have "list_all isVisibleToClient ?appended"
    using assms(7) by (simp add: list_all_iff visibilityFlag_default split_beta)
  ultimately show ?thesis by blast
qed

theorem uploadTaskImages_default_visible_witness:
  "tasks demoDb ''t1'' = Some mowing \<and> task_id mowing = ''t1''
   \<and> \<not> (c_role gardener = Worker \<and> t_worker mowing \<noteq> Some (c_id gardener))
   \<and> ub_imageType plainUpload = Some ''after'' \<and> imagesOfType mowing ''after'' = Some []
   \<and> [afterShot] \<noteq> [] \<and> ub_isVisibleToClient plainUpload = None
   \<and> (\<exists>saved db' appended.
           uploadTaskImages demoDb gardener ''t1'' plainUpload [afterShot] freshIds 400 = (Inr saved, db')
           \<and> tasks db' ''t1'' = Some saved
           \<and> imagesOfType saved ''after'' = Some ([] @ appended)
           \<and> length appended = length [afterShot]
           \<and> list_all isVisibleToClient appended)"
proof -
  have h1: "tasks demoDb ''t1'' = Some mowing" by (simp add: demoDb_def)
  have h2: "task_id mowing = ''t1''" by (simp add: mowing_def)
  have h3: "\<not> (c_role gardener = Worker \<and> t_worker mowing \<noteq> Some (c_id gardener))"
    by (simp add: mowing_def gardener_def)
  have h4: "ub_imageType plainUpload = Some ''after''" by (simp add: plainUpload_def)
  have h5: "imagesOfType mowing ''after'' = Some []" by (simp add: imagesOfType_def mowing_def)
  have h6: "[afterShot] \<noteq> []" by simp
  have h7: "ub_isVisibleToClient plainUpload = None" by (simp add: plainUpload_def)
  from uploadTaskImages_default_visible [OF h1 h2 h3 h4 h5 h6 h7, of freshIds 400]
       h1 h2 h3 h4 h5 h6 h7
  show ?thesis by blast
qed

text \<open>
  C7 as written (such an attachment is hidden) fails on the example upload: the one
  attachment appended to the empty after slot is stored with \<open>isVisibleToClient = True\<close>.
\<close>

theorem uploadTaskImages_hidden_counterexample:
  "ub_isVisibleToClient plainUpload = None
   \<and> fst (uploadTaskImages demoDb gardener ''t1'' plainUpload [afterShot] freshIds 400)
       = Inr mowingWithAfterShot
   \<and> images_after mowing = []
   \<and> map isVisibleToClient (images_after mowingWithAfterShot) = [True]"
  by (simp add: uploadTaskImages_def demoDb_def mowing_def gardener_def plainUpload_def
      afterShot_def freshIds_def mowingWithAfterShot_def imagesOfType_def setImagesOfType_def
      mediaObject_def visibilityFlag_def saveTask_def preSave_def Let_def enumerate_eq_zip)

text \<open>
  C8. Bulk visibility update on an existing task and a valid slot never fails on the id list:
  it sets the flag to the supplied value on exactly the attachments of the slot whose id is in
  the list (every other attachment is kept as it was), saves the task, and reports as
  \<open>updatedCount\<close> the number of attachments of the slot whose id is in the list; ids that
  match nothing are ignored. With attachment ids distinct, one id present in the slot plus
  one id absent from it gives \<open>updatedCount = 1\<close>.
\<close>

theorem bulkUpdateImageVisibility_spec:
  assumes "tasks db tid = Some t" and "task_id t = tid" and "imagesOfType t imageType = Some imgs"
  shows "(\<exists>saved db'.
            bulkUpdateImageVisibility db tid imageIds imageType isVisible =
              (Inr (length (filter (\<lambda>a. att_id a \<in> set imageIds) imgs), isVisible), db')
            \<and> tasks db' tid = Some saved
            \<and> imagesOfType saved imageType =
                Some (map (\<lambda>a. if att_id a \<in> set imageIds then a\<lparr>isVisibleToClient := isVisible\<rparr> else a) imgs))
       \<and> (distinct (map att_id imgs) \<and> valid \<in> att_id ` set imgs \<and> missing \<notin> att_id ` set imgs \<longrightarrow>
            fst (bulkUpdateImageVisibility db tid [valid, missing] imageType isVisible) = Inr (1, isVisible))"
proof (intro conjI impI)
  show "\<exists>saved db'.
            bulkUpdateImageVisibility db tid imageIds imageType isVisible =
              (Inr (length (filter (\<lambda>a. att_id a \<in> set imageIds) imgs), isVisible), db')
            \<and> tasks db' tid = Some saved
            \<and> imagesOfType saved imageType =
                Some (map (\<lambda>a. if att_id a \<in> set imageIds then a\<lparr>isVisibleToClient := isVisible\<rparr> else a) imgs)"
    using bulkUpdateImageVisibility_eq [OF assms, of imageIds isVisible] imagesOfType_set [OF assms(3)]
    by (simp add: Let_def)
next
  assume "distinct (map att_id imgs) \<and> valid \<in> att_id ` set imgs \<and> missing \<notin> att_id ` set imgs"
  then have "length (filter (\<lambda>x. att_id x \<in> set [valid, missing]) imgs) = 1"
    using count_one_valid_one_missing by blast
  then show "fst (bulkUpdateImageVisibility db tid [valid, missing] imageType isVisible) = Inr (1, isVisible)"
    using bulkUpdateImageVisibility_eq [OF assms, of "[valid, missing]" isVisible]
    by (simp add: Let_def)
qed

theorem bulkUpdateImageVisibility_spec_witness:
  "tasks demoDb ''t1'' = Some mowing \<and> task_id mowing = ''t1''
   \<and> imagesOfType mowing ''before'' = Some [beforePhoto, beforeClip]
   \<and> (\<exists>saved db'.
         bulkUpdateImageVisibility demoDb ''t1'' [''a2'', ''zz''] ''before'' True = (Inr (1, True), db')
         \<and> tasks db' ''t1'' = Some saved
         \<and> imagesOfType saved ''before'' = Some [beforePhoto, beforeClip\<lparr>isVisibleToClient := True\<rparr>])
   \<and> fst (bulkUpdateImageVisibility demoDb ''t1'' [''a2'', ''zz''] ''before'' True) = Inr (1, True)"
proof -
  have h1: "tasks demoDb ''t1'' = Some mowing" by (simp add: demoDb_def)
  have h2: "task_id mowing = ''t1''" by (simp add: mowing_def)
  have h3: "imagesOfType mowing ''before'' = Some [beforePhoto, beforeClip]"
    by (simp add: imagesOfType_def mowing_def)
  have ids: "att_id beforePhoto = ''a1''" "att_id beforeClip = ''a2''"
    by (simp_all add: beforePhoto_def beforeClip_def)
  from bulkUpdateImageVisibility_spec [OF h1 h2 h3, of "[''a2'', ''zz'']" True "''a2''" "''zz''"]
       h1 h2 h3 ids
  show ?thesis by simp
qed

text \<open>
  C9. Feedback is gated on the status. On a task that is not completed, the full submission
  and the "satisfied" shortcut both fail with the validation response (status 400) and return
  the store unchanged, so \<open>task.feedback\<close> is not set. On a completed task, when a caller of role
  client is the task's client, the shortcut succeeds, and so does a full submission whose rating
  reads as an integer from 1 to 5 (\<open>validFeedback\<close>); either replaces whatever feedback the task
  had, the task holding the single record just written.
\<close>

theorem feedback_requires_completed:
  assumes "tasks db tid = Some t" and "task_id t = tid"
  shows "(t_status t \<noteq> Completed \<longrightarrow>
            submitFeedback db req_user tid body file now =
              (Inl (Failure 400 ''Can only provide feedback for completed tasks'' None), db)
            \<and> markSatisfied db req_user tid now =
              (Inl (Failure 400 ''Can only mark satisfaction for completed tasks'' None), db))
       \<and> (t_status t = Completed \<and> (c_role req_user = Client \<longrightarrow> t_client t = c_id req_user) \<longrightarrow>
            (validFeedback body \<longrightarrow>
               (\<exists>db'. submitFeedback db req_user tid body file now = (Inr (feedbackData body file now), db')
                  \<and> map_option t_feedback (tasks db' tid) = Some (Some (feedbackData body file now))))
            \<and> (\<exists>db'. markSatisfied db req_user tid now = (Inr (satisfiedFeedback now), db')
                  \<and> map_option t_feedback (tasks db' tid) = Some (Some (satisfiedFeedback now))))"
  using assms by (auto simp add: submitFeedback_def markSatisfied_def saveTask_eq Let_def)

theorem feedback_requires_completed_witness:
  "submitFeedback reviewedDb owner ''t1'' fiveStars None 5000000 =
     (Inl (Failure 400 ''Can only provide feedback for completed tasks'' None), reviewedDb)
   \<and> markSatisfied reviewedDb owner ''t1'' 5000000 =
     (Inl (Failure 400 ''Can only mark satisfaction for completed tasks'' None), reviewedDb)
   \<and> map_option t_feedback (tasks reviewedDb ''t3'') = Some (Some earlierFeedback)
   \<and> (\<exists>db'. submitFeedback reviewedDb owner ''t3'' fiveStars None 5000000 =
               (Inr (feedbackData fiveStars None 5000000), db')
          \<and> map_option t_feedback (tasks db' ''t3'') = Some (Some (feedbackData fiveStars None 5000000)))
   \<and> (\<exists>db'. markSatisfied reviewedDb owner ''t3'' 5000000 = (Inr (satisfiedFeedback 5000000), db')
          \<and> map_option t_feedback (tasks db' ''t3'') = Some (Some (satisfiedFeedback 5000000)))"
proof -
  have a1: "tasks reviewedDb ''t1'' = Some mowing" by (simp add: reviewedDb_def demoDb_def)
  have a2: "task_id mowing = ''t1''" by (simp add: mowing_def)
  have b1: "tasks reviewedDb ''t3'' = Some (pruning\<lparr>t_feedback := Some earlierFeedback\<rparr>)"
    by (simp add: reviewedDb_def)
  have b2: "task_id (pruning\<lparr>t_feedback := Some earlierFeedback\<rparr>) = ''t3''" by (simp add: pruning_def)
  have s1: "t_status mowing \<noteq> Completed" by (simp add: mowing_def)
  have s3: "t_status (pruning\<lparr>t_feedback := Some earlierFeedback\<rparr>) = Completed"
    by (simp add: pruning_def)
  have c3: "t_client (pruning\<lparr>t_feedback := Some earlierFeedback\<rparr>) = c_id owner"
    by (simp add: pruning_def owner_def)
  have v: "validFeedback fiveStars" by (simp add: validFeedback_def fiveStars_def)
  from feedback_requires_completed [OF a1 a2, of owner fiveStars None 5000000]
       feedback_requires_completed [OF b1 b2, of owner fiveStars None 5000000]
       s1 s3 c3 v b1
  show ?thesis by simp
qed

text \<open>
  C10. The start operation checks the caller against the assigned worker and nothing else:
  whatever the status of the task, the call succeeds, the saved task is in progress with
  \<open>startedAt\<close> overwritten by the current time, and the start GPS fix is overwritten exactly
  when both coordinates are supplied.
\<close>

theorem startTask_from_any_status:
  assumes "tasks db tid = Some t" and "task_id t = tid" and "t_worker t = Some (c_id req_user)"
  shows "\<exists>saved db'. startTask db req_user tid body now = (Inr saved, db')
           \<and> tasks db' tid = Some saved
           \<and> t_status saved = InProgress
           \<and> startedAt saved = Some now
           \<and> startLocation saved =
               (case gpsFix body now of None \<Rightarrow> startLocation t | Some fix \<Rightarrow> Some fix)"
  using startTask_assigned [OF assms, of body now]
  by (simp add: Let_def split: option.splits)

theorem startTask_from_any_status_witness:
  "tasks demoDb ''t3'' = Some pruning \<and> task_id pruning = ''t3''
   \<and> t_worker pruning = Some (c_id gardener) \<and> t_status pruning = Completed
   \<and> (\<exists>saved db'. startTask demoDb gardener ''t3'' atGate 9000000 = (Inr saved, db')
          \<and> tasks db' ''t3'' = Some saved
          \<and> t_status saved = InProgress
          \<and> startedAt saved = Some 9000000
          \<and> startLocation saved =
               Some \<lparr>gps_latitude = 30, gps_longitude = 31, gps_timestamp = 9000000\<rparr>)"
proof -
  have h1: "tasks demoDb ''t3'' = Some pruning" by (simp add: demoDb_def)
  have h2: "task_id pruning = ''t3''" by (simp add: pruning_def)
  have h3: "t_worker pruning = Some (c_id gardener)" by (simp add: pruning_def gardener_def)
  have h4: "t_status pruning = Completed" by (simp add: pruning_def)
  have g: "gpsFix atGate 9000000 =
             Some \<lparr>gps_latitude = 30, gps_longitude = 31, gps_timestamp = 9000000\<rparr>"
    by (simp add: gpsFix_def atGate_def)
  from startTask_from_any_status [OF h1 h2 h3, of atGate 9000000] h1 h2 h3 h4 g
  show ?thesis by simp
qed

end
